theory Spec2Isabelle
  imports Main
begin

section \<open>Machine arithmetic of the firmware\<close>

text \<open>
  The firmware (StepperMotor.cpp, StepperMotor.h) keeps every position, step count and
  velocity in a C++ \<^verbatim>\<open>long\<close>, which is 32 bits wide on the boards it targets (Arduino,
  ESP32), and the step deadline in an \<^verbatim>\<open>unsigned long\<close>.  Values are modelled as
  \<^typ>\<open>int\<close>, and every arithmetic operation of the source is followed by the reduction
  to the 32-bit range: \<open>u32\<close> for \<^verbatim>\<open>unsigned long\<close>, whose arithmetic C++ defines modulo
  \<open>2^32\<close>, and \<open>s32\<close> for \<^verbatim>\<open>long\<close>, where the two's-complement result is taken for an
  overflow (which C++ leaves undefined).  The theorems that speak of plain sums and
  products assume that the values are in range, so that no reduction takes place.
\<close>

definition s32 :: "int \<Rightarrow> int" where
  "s32 x = (x + 2147483648) mod 4294967296 - 2147483648"

definition u32 :: "int \<Rightarrow> int" where
  "u32 x = x mod 4294967296"

text \<open>The values a \<^verbatim>\<open>long\<close> can hold.\<close>

definition is_long :: "int \<Rightarrow> bool" where
  "is_long x = (- 2147483648 \<le> x \<and> x \<le> 2147483647)"

definition long_add :: "int \<Rightarrow> int \<Rightarrow> int" where
  "long_add a b = s32 (a + b)"

definition long_sub :: "int \<Rightarrow> int \<Rightarrow> int" where
  "long_sub a b = s32 (a - b)"

definition long_mul :: "int \<Rightarrow> int \<Rightarrow> int" where
  "long_mul a b = s32 (a * b)"

text \<open>
  C++ division truncates towards zero.  The source divides by the constant 2, by a
  \<open>VelocityIncrement\<close> it has tested not to be zero (\<open>startRotation\<close>) and by a
  \<open>Velocity\<close> it has tested to be positive (\<open>Run\<close>).
\<close>

definition long_div :: "int \<Rightarrow> int \<Rightarrow> int" where
  "long_div a b = s32 (sgn a * sgn b * (\<bar>a\<bar> div \<bar>b\<bar>))"

text \<open>The quotient of C++ before the reduction to 32 bits.\<close>

definition cpp_div :: "int \<Rightarrow> int \<Rightarrow> int" where
  "cpp_div num den = sgn num * sgn den * (\<bar>num\<bar> div \<bar>den\<bar>)"

text \<open>Arduino's \<^verbatim>\<open>abs\<close> is the macro \<^verbatim>\<open>((x)>0?(x):-(x))\<close>.\<close>

definition long_abs :: "int \<Rightarrow> int" where
  "long_abs x = (if x > 0 then x else s32 (- x))"

section \<open>Data model (StepperMotor.h)\<close>

datatype MotorState = MS_ENABLED | MS_DISABLED | MS_RUNNING | MS_ESTOPPED

datatype RunReturn =
    OKAY
  | RUN_COMPLETE
  | RANGE_ERROR_LOWER
  | RANGE_ERROR_UPPER
  | LIMIT_SWITCH_LOWER
  | LIMIT_SWITCH_UPPER

datatype level = LOW | HIGH

text \<open>
  The fields of \<^verbatim>\<open>class StepperMotor\<close>, under their own names.  The last four fields are
  not members of the class: they record what the object has written to its three output
  pins (\<^verbatim>\<open>digitalWrite\<close>) and how many step pulses \<open>doStep\<close> has emitted, so that
  ``no pulse is emitted'' can be stated.
\<close>

record motor =
  State :: MotorState
  EnablePin :: int
  DirectionPin :: int
  StepPin :: int
  LLSwitchPin :: int
  ULSwitchPin :: int
  Homed :: bool
  MaxVelocity :: int
  TargetOrSteps :: int
  TotalSteps :: int
  StepCount :: int
  StepIncrement :: int
  AbsolutePosition :: int
  DeltaPosition :: int
  TargetPosition :: int
  LowerLimit :: int
  UpperLimit :: int
  RampSteps :: int
  RampDownStep :: int
  Velocity :: int
  VelocityIncrement :: int
  NextPosition :: int
  NextStepMicros :: int
  EnableOut :: level
  DirectionOut :: level
  StepOut :: level
  Pulses :: nat

definition RampScale :: int where
  "RampScale = 5"

definition HOMING_SPEED :: int where
  "HOMING_SPEED = 3000"

text \<open>
  What one call of \<open>Run\<close> reads from outside the object: the clock \<^verbatim>\<open>micros()\<close> and
  the two limit-switch inputs (\<open>True\<close> when \<^verbatim>\<open>digitalRead\<close> gives \<^verbatim>\<open>LOW\<close>, the switch
  being active-low).
\<close>

record env =
  micros :: int
  ll_low :: bool
  ul_low :: bool

section \<open>Operations (StepperMotor.cpp)\<close>

text \<open>The constructor.  \<^verbatim>\<open>NextStepMicros = -1L\<close> converts to the largest unsigned value.\<close>

definition StepperMotor :: "int \<Rightarrow> int \<Rightarrow> int \<Rightarrow> int \<Rightarrow> int \<Rightarrow> motor" where
  "StepperMotor enablePin directionPin stepPin llSwitchPin ulSwitchPin =
     \<lparr> State = MS_DISABLED,
       EnablePin = enablePin,
       DirectionPin = directionPin,
       StepPin = stepPin,
       LLSwitchPin = llSwitchPin,
       ULSwitchPin = ulSwitchPin,
       Homed = False,
       MaxVelocity = 0,
       TargetOrSteps = 0,
       TotalSteps = 0,
       StepCount = 0,
       StepIncrement = 1,
       AbsolutePosition = 0,
       DeltaPosition = 0,
       TargetPosition = 0,
       LowerLimit = - 2000000000,
       UpperLimit = 2000000000,
       RampSteps = 0,
       RampDownStep = 0,
       Velocity = 0,
       VelocityIncrement = long_mul RampScale 5,
       NextPosition = 0,
       NextStepMicros = u32 (- 1),
       EnableOut = HIGH,
       DirectionOut = LOW,
       StepOut = LOW,
       Pulses = 0 \<rparr>"

text \<open>\<open>doStep\<close>: one pulse on the step pin, which ends \<^verbatim>\<open>LOW\<close>.\<close>

definition doStep :: "motor \<Rightarrow> motor" where
  "doStep s = s\<lparr> StepOut := LOW, Pulses := Suc (Pulses s) \<rparr>"

text \<open>The ramp adjustment at the end of a step of \<open>Run\<close> (lines 125 to 136).\<close>

definition adjustVelocity :: "motor \<Rightarrow> motor" where
  "adjustVelocity s =
     (let s1 = s\<lparr> StepCount := long_abs (DeltaPosition s) \<rparr> in
      if StepCount s1 \<le> RampSteps s1 then
        s1\<lparr> Velocity := long_add (Velocity s1) (VelocityIncrement s1) \<rparr>
      else if StepCount s1 > RampDownStep s1 then
        s1\<lparr> Velocity := long_sub (Velocity s1) (VelocityIncrement s1) \<rparr>
      else s1)"

text \<open>The deadline of the next step (lines 138 to 140).\<close>

definition scheduleNext :: "motor \<Rightarrow> motor" where
  "scheduleNext s =
     (if Velocity s > 0 then
        s\<lparr> NextStepMicros := u32 (NextStepMicros s + long_div 1000000 (Velocity s)) \<rparr>
      else s)"

definition Run :: "env \<Rightarrow> motor \<Rightarrow> RunReturn \<times> motor" where
  "Run e s =
     (if Homed s \<and> State s = MS_RUNNING \<and> micros e \<ge> NextStepMicros s then
        if AbsolutePosition s = TargetPosition s then
          (RUN_COMPLETE, s\<lparr> State := MS_ENABLED \<rparr>)
        else
          let s1 = s\<lparr> NextPosition := long_add (AbsolutePosition s) (StepIncrement s) \<rparr> in
          if NextPosition s1 < LowerLimit s1 then
            (RANGE_ERROR_LOWER, s1\<lparr> State := MS_ENABLED \<rparr>)
          else if NextPosition s1 > UpperLimit s1 then
            (RANGE_ERROR_UPPER, s1\<lparr> State := MS_ENABLED \<rparr>)
          else
            let s2 = doStep s1;
                s3 = s2\<lparr> AbsolutePosition := NextPosition s2,
                         DeltaPosition := long_add (DeltaPosition s2) (StepIncrement s2) \<rparr>
            in
            if LLSwitchPin s3 \<ge> 0 \<and> ll_low e then
              (LIMIT_SWITCH_LOWER, s3\<lparr> State := MS_ENABLED \<rparr>)
            else if ULSwitchPin s3 \<ge> 0 \<and> ul_low e then
              (LIMIT_SWITCH_UPPER, s3\<lparr> State := MS_ENABLED \<rparr>)
            else
              (OKAY, scheduleNext (adjustVelocity s3))
      else (OKAY, s))"

text \<open>\<open>startRotation\<close> reads the clock once; \<open>now\<close> is the value of \<^verbatim>\<open>micros()\<close>.\<close>

definition startRotation :: "int \<Rightarrow> motor \<Rightarrow> motor" where
  "startRotation now s =
     (let s1 =
            (if VelocityIncrement s = 0 then
               s\<lparr> RampSteps := 0, Velocity := MaxVelocity s \<rparr>
             else
               let r = s\<lparr> RampSteps := long_div (MaxVelocity s) (VelocityIncrement s) \<rparr> in
               if RampSteps r = 0 then r\<lparr> Velocity := MaxVelocity r \<rparr>
               else r\<lparr> Velocity := 0 \<rparr>);
          s2 =
            (if TotalSteps s1 > long_mul 2 (RampSteps s1) then
               s1\<lparr> RampDownStep := long_sub (TotalSteps s1) (RampSteps s1) \<rparr>
             else
               s1\<lparr> RampSteps := long_div (TotalSteps s1) 2,
                    RampDownStep := long_div (TotalSteps s1) 2 \<rparr>);
          s3 =
            (if TargetPosition s2 \<ge> AbsolutePosition s2 then
               s2\<lparr> StepIncrement := 1, DirectionOut := LOW \<rparr>
             else if TargetPosition s2 < AbsolutePosition s2 then
               s2\<lparr> StepIncrement := - 1, DirectionOut := HIGH \<rparr>
             else s2)
      in s3\<lparr> DeltaPosition := 0, NextStepMicros := u32 (now + 10), State := MS_RUNNING \<rparr>)"

definition SetHomePosition :: "motor \<Rightarrow> motor" where
  "SetHomePosition s =
     (if State s = MS_ENABLED then
        s\<lparr> AbsolutePosition := 0, DeltaPosition := 0, Homed := True \<rparr>
      else s)"

definition Enable :: "motor \<Rightarrow> motor" where
  "Enable s = SetHomePosition (s\<lparr> EnableOut := LOW, State := MS_ENABLED \<rparr>)"

definition Disable :: "motor \<Rightarrow> motor" where
  "Disable s = s\<lparr> EnableOut := HIGH, State := MS_DISABLED, Homed := False \<rparr>"

definition SetLowerLimit :: "int \<Rightarrow> motor \<Rightarrow> motor" where
  "SetLowerLimit lowerLimit s =
     (if lowerLimit \<le> 0 \<and> lowerLimit \<le> UpperLimit s then s\<lparr> LowerLimit := lowerLimit \<rparr>
      else s)"

definition SetUpperLimit :: "int \<Rightarrow> motor \<Rightarrow> motor" where
  "SetUpperLimit upperLimit s =
     (if upperLimit \<ge> 0 \<and> upperLimit \<ge> LowerLimit s then s\<lparr> UpperLimit := upperLimit \<rparr>
      else s)"

definition SetRamp :: "int \<Rightarrow> motor \<Rightarrow> motor" where
  "SetRamp ramp s =
     (if ramp \<ge> 0 \<and> ramp \<le> 9 then
        if ramp = 0 then s\<lparr> VelocityIncrement := 0 \<rparr>
        else s\<lparr> VelocityIncrement := long_mul RampScale (long_sub 10 ramp) \<rparr>
      else s)"

definition RotateAbsolute :: "int \<Rightarrow> int \<Rightarrow> int \<Rightarrow> motor \<Rightarrow> motor" where
  "RotateAbsolute newPosition stepsPerSecond now s =
     startRotation now
       (s\<lparr> TargetPosition := newPosition,
            MaxVelocity := stepsPerSecond,
            TotalSteps := long_abs (long_sub newPosition (AbsolutePosition s)) \<rparr>)"

definition RotateRelative :: "int \<Rightarrow> int \<Rightarrow> int \<Rightarrow> motor \<Rightarrow> motor" where
  "RotateRelative numSteps stepsPerSecond now s =
     (if numSteps \<noteq> 0 then
        startRotation now
          (s\<lparr> TargetPosition := long_add (AbsolutePosition s) numSteps,
               MaxVelocity := stepsPerSecond,
               TotalSteps := long_abs numSteps \<rparr>)
      else s)"

definition RotateToHome :: "int \<Rightarrow> motor \<Rightarrow> motor" where
  "RotateToHome now s =
     startRotation now
       (s\<lparr> MaxVelocity := HOMING_SPEED,
            TargetPosition := 0,
            TotalSteps := long_abs (AbsolutePosition s) \<rparr>)"

definition RotateToLowerLimit :: "int \<Rightarrow> motor \<Rightarrow> motor" where
  "RotateToLowerLimit now s =
     startRotation now
       (s\<lparr> MaxVelocity := HOMING_SPEED,
            TargetPosition := LowerLimit s,
            TotalSteps := long_abs (long_sub (AbsolutePosition s) (LowerLimit s)) \<rparr>)"

definition RotateToUpperLimit :: "int \<Rightarrow> motor \<Rightarrow> motor" where
  "RotateToUpperLimit now s =
     startRotation now
       (s\<lparr> MaxVelocity := HOMING_SPEED,
            TargetPosition := UpperLimit s,
            TotalSteps := long_abs (long_sub (AbsolutePosition s) (UpperLimit s)) \<rparr>)"

definition EStop :: "motor \<Rightarrow> motor" where
  "EStop s =
     s\<lparr> StepOut := LOW, EnableOut := HIGH,
        State := MS_ESTOPPED, Homed := False,
        TargetPosition := AbsolutePosition s \<rparr>"

text \<open>
  \<open>FindHome\<close> blocks in two loops on the lower limit switch.  The successive results of
  \<^verbatim>\<open>digitalRead (LLSwitchPin)\<close> are given as a list (\<open>True\<close> for \<^verbatim>\<open>LOW\<close>); a loop that
  has not ended when the list is used up has not returned, which is \<open>None\<close>.  The
  \<^verbatim>\<open>delay\<close> calls only pass time.
\<close>

fun seekSwitch :: "bool list \<Rightarrow> motor \<Rightarrow> (bool list \<times> motor) option" where
  "seekSwitch [] s = None"
| "seekSwitch (low # reads) s = (if low then Some (reads, s) else seekSwitch reads (doStep s))"

fun backOff :: "bool list \<Rightarrow> motor \<Rightarrow> (bool list \<times> motor) option" where
  "backOff [] s = None"
| "backOff (low # reads) s = (if low then backOff reads (doStep s) else Some (reads, s))"

definition FindHome :: "bool list \<Rightarrow> motor \<Rightarrow> motor option" where
  "FindHome reads s =
     (if LLSwitchPin s \<ge> 0 then
        case seekSwitch reads ((Enable s)\<lparr> DirectionOut := HIGH \<rparr>) of
          None \<Rightarrow> None
        | Some (reads1, s1) \<Rightarrow>
            (case backOff reads1 (s1\<lparr> DirectionOut := LOW \<rparr>) of
               None \<Rightarrow> None
             | Some (reads2, s2) \<Rightarrow> Some (SetHomePosition ((doStep ^^ 10) s2)))
      else Some s)"

section \<open>Sequences of calls\<close>

text \<open>
  The public operations that change the object, with their arguments and with what they
  read from outside, as one datatype; \<open>exec\<close> runs one of them and \<open>execs\<close> a sequence
  of them, as the host program does from \<^verbatim>\<open>loop()\<close>.
\<close>

datatype call =
    CRun env
  | CEnable
  | CDisable
  | CFindHome "bool list"
  | CSetHomePosition
  | CSetLowerLimit int
  | CSetUpperLimit int
  | CSetRamp int
  | CRotateAbsolute int int int
  | CRotateRelative int int int
  | CRotateToHome int
  | CRotateToLowerLimit int
  | CRotateToUpperLimit int
  | CEStop

fun exec :: "call \<Rightarrow> motor \<Rightarrow> motor option" where
  "exec (CRun e) s = Some (snd (Run e s))"
| "exec CEnable s = Some (Enable s)"
| "exec CDisable s = Some (Disable s)"
| "exec (CFindHome reads) s = FindHome reads s"
| "exec CSetHomePosition s = Some (SetHomePosition s)"
| "exec (CSetLowerLimit v) s = Some (SetLowerLimit v s)"
| "exec (CSetUpperLimit v) s = Some (SetUpperLimit v s)"
| "exec (CSetRamp r) s = Some (SetRamp r s)"
| "exec (CRotateAbsolute p v now) s = Some (RotateAbsolute p v now s)"
| "exec (CRotateRelative n v now) s = Some (RotateRelative n v now s)"
| "exec (CRotateToHome now) s = Some (RotateToHome now s)"
| "exec (CRotateToLowerLimit now) s = Some (RotateToLowerLimit now s)"
| "exec (CRotateToUpperLimit now) s = Some (RotateToUpperLimit now s)"
| "exec CEStop s = Some (EStop s)"

fun execs :: "call list \<Rightarrow> motor \<Rightarrow> motor option" where
  "execs [] s = Some s"
| "execs (c # cs) s = (case exec c s of None \<Rightarrow> None | Some s' \<Rightarrow> execs cs s')"

text \<open>The calls that enable the driver: \<open>Enable\<close> itself, and \<open>FindHome\<close>, which calls it.\<close>

fun enables :: "call \<Rightarrow> bool" where
  "enables CEnable = True"
| "enables (CFindHome reads) = True"
| "enables c = False"

text \<open>
  Repeated calls of \<open>Run\<close>, one per element of the list of readings: \<open>Runs\<close> gives the
  state after all of them, \<open>run_until_complete\<close> is the host loop that calls \<open>Run\<close>
  until it returns \<open>RUN_COMPLETE\<close> (\<open>None\<close> when the readings end before that).
\<close>

fun Runs :: "env list \<Rightarrow> motor \<Rightarrow> motor" where
  "Runs [] s = s"
| "Runs (e # es) s = Runs es (snd (Run e s))"

fun run_until_complete :: "env list \<Rightarrow> motor \<Rightarrow> motor option" where
  "run_until_complete [] s = None"
| "run_until_complete (e # es) s =
     (if fst (Run e s) = RUN_COMPLETE then Some (snd (Run e s))
      else run_until_complete es (snd (Run e s)))"

text \<open>
  A reading at which a running motor steps: the step time is reached and no configured
  limit switch is asserted.  \<open>stepping es s\<close> says so of every call of a sequence
  started in \<open>s\<close>.
\<close>

definition step_due :: "env \<Rightarrow> motor \<Rightarrow> bool" where
  "step_due e s =
     (micros e \<ge> NextStepMicros s
      \<and> \<not> (LLSwitchPin s \<ge> 0 \<and> ll_low e)
      \<and> \<not> (ULSwitchPin s \<ge> 0 \<and> ul_low e))"

fun stepping :: "env list \<Rightarrow> motor \<Rightarrow> bool" where
  "stepping [] s = True"
| "stepping (e # es) s = (step_due e s \<and> stepping es (snd (Run e s)))"

text \<open>
  The object that the header's default arguments construct
  (\<^verbatim>\<open>enablePin=2, directionPin=3, stepPin=4, llSwitchPin=-1, ulSwitchPin=-1\<close>), and a reading
  taken when any step is due: the clock at its largest value and no switch asserted.
\<close>

definition defaultMotor :: motor where
  "defaultMotor = StepperMotor 2 3 4 (- 1) (- 1)"

definition due :: "env" where
  "due = \<lparr> micros = 4294967295, ll_low = False, ul_low = False \<rparr>"

text \<open>The fields that a step of \<open>Run\<close> leaves as they are.\<close>

definition same_setup :: "motor \<Rightarrow> motor \<Rightarrow> bool" where
  "same_setup s s' =
     (State s' = State s \<and> Homed s' = Homed s
      \<and> TargetPosition s' = TargetPosition s \<and> StepIncrement s' = StepIncrement s
      \<and> LowerLimit s' = LowerLimit s \<and> UpperLimit s' = UpperLimit s
      \<and> LLSwitchPin s' = LLSwitchPin s \<and> ULSwitchPin s' = ULSwitchPin s
      \<and> VelocityIncrement s' = VelocityIncrement s \<and> MaxVelocity s' = MaxVelocity s
      \<and> TotalSteps s' = TotalSteps s
      \<and> RampSteps s' = RampSteps s \<and> RampDownStep s' = RampDownStep s)"

section \<open>Basic facts\<close>

lemmas run_defs = Run_def doStep_def adjustVelocity_def scheduleNext_def

subsection \<open>Arithmetic without overflow\<close>

lemma s32_id: "is_long x \<Longrightarrow> s32 x = x"
  by (simp add: s32_def is_long_def)

lemma div_le_self_int: "0 \<le> a \<Longrightarrow> 0 \<le> b \<Longrightarrow> a div b \<le> (a::int)"
proof (cases "b = 0")
  case True
  then show "0 \<le> a \<Longrightarrow> a div b \<le> a" by simp
next
  case False
  assume "0 \<le> a" "0 \<le> b"
  with False have "a div b \<le> a div 1" by (intro zdiv_mono2) simp_all
  then show "a div b \<le> a" by simp
qed

lemma long_div_nonneg: "0 \<le> a \<Longrightarrow> 0 \<le> b \<Longrightarrow> is_long a \<Longrightarrow> long_div a b = a div b"
proof -
  assume a: "0 \<le> a" "0 \<le> b" "is_long a"
  have "0 \<le> a div b" using a by (simp add: pos_imp_zdiv_nonneg_iff div_int_pos_iff)
  moreover have "a div b \<le> a" using a by (simp add: div_le_self_int)
  ultimately have "is_long (a div b)" using a by (simp add: is_long_def)
  moreover have "sgn a * sgn b * (\<bar>a\<bar> div \<bar>b\<bar>) = a div b"
    using a by (cases "a = 0"; cases "b = 0") (simp_all add: sgn_if)
  ultimately show ?thesis by (simp add: long_div_def s32_id)
qed

lemma long_add_step:
  assumes "i = 1 \<or> i = - 1" "0 \<le> k" "k < d" "is_long a" "is_long (a + i * d)"
  shows "long_add (a + i * k) i = a + i * (k + 1)" and "is_long (a + i * (k + 1))"
proof -
  show l: "is_long (a + i * (k + 1))"
    using assms by (auto simp: is_long_def)
  have "a + i * k + i = a + i * (k + 1)" by (simp add: algebra_simps)
  then have "long_add (a + i * k) i = s32 (a + i * (k + 1))"
    unfolding long_add_def by (rule arg_cong)
  with l show "long_add (a + i * k) i = a + i * (k + 1)"
    by (simp add: s32_id)
qed

lemma between_limits:
  assumes "i = 1 \<or> i = - 1" "0 \<le> k" "k \<le> d"
    and "lo \<le> a" "a \<le> hi" "lo \<le> a + i * d" "a + i * d \<le> hi"
  shows "lo \<le> a + i * k \<and> a + i * k \<le> (hi::int)"
  using assms by auto



subsection \<open>What the operations leave unchanged\<close>

lemma Run_limits [simp]:
  "LowerLimit (snd (Run e s)) = LowerLimit s" "UpperLimit (snd (Run e s)) = UpperLimit s"
  by (simp_all add: run_defs Let_def)

lemma Run_not_homed: "\<not> Homed s \<Longrightarrow> Run e s = (OKAY, s)"
  by (simp add: Run_def)

lemma startRotation_frame [simp]:
  "LowerLimit (startRotation now s) = LowerLimit s"
  "UpperLimit (startRotation now s) = UpperLimit s"
  "Homed (startRotation now s) = Homed s"
  "AbsolutePosition (startRotation now s) = AbsolutePosition s"
  "Pulses (startRotation now s) = Pulses s"
  "VelocityIncrement (startRotation now s) = VelocityIncrement s"
  "TargetPosition (startRotation now s) = TargetPosition s"
  "MaxVelocity (startRotation now s) = MaxVelocity s"
  "TotalSteps (startRotation now s) = TotalSteps s"
  "State (startRotation now s) = MS_RUNNING"
  "DeltaPosition (startRotation now s) = 0"
  "EnableOut (startRotation now s) = EnableOut s"
  "StepOut (startRotation now s) = StepOut s"
  "LLSwitchPin (startRotation now s) = LLSwitchPin s"
  "ULSwitchPin (startRotation now s) = ULSwitchPin s"
  by (simp_all add: startRotation_def Let_def)


lemma doStep_frame [simp]:
  "LowerLimit (doStep s) = LowerLimit s" "UpperLimit (doStep s) = UpperLimit s"
  "Homed (doStep s) = Homed s" "State (doStep s) = State s"
  by (simp_all add: doStep_def)

lemma doSteps_frame [simp]:
  "LowerLimit ((doStep ^^ k) s) = LowerLimit s" "UpperLimit ((doStep ^^ k) s) = UpperLimit s"
  by (induction k) simp_all

lemma SetHomePosition_limits [simp]:
  "LowerLimit (SetHomePosition s) = LowerLimit s" "UpperLimit (SetHomePosition s) = UpperLimit s"
  by (simp_all add: SetHomePosition_def)

lemma Enable_limits [simp]:
  "LowerLimit (Enable s) = LowerLimit s" "UpperLimit (Enable s) = UpperLimit s"
  by (simp_all add: Enable_def)

lemma scheduleNext_fields [simp]:
  "State (scheduleNext s) = State s" "Homed (scheduleNext s) = Homed s"
  "TargetPosition (scheduleNext s) = TargetPosition s"
  "StepIncrement (scheduleNext s) = StepIncrement s"
  "LowerLimit (scheduleNext s) = LowerLimit s" "UpperLimit (scheduleNext s) = UpperLimit s"
  "LLSwitchPin (scheduleNext s) = LLSwitchPin s" "ULSwitchPin (scheduleNext s) = ULSwitchPin s"
  "VelocityIncrement (scheduleNext s) = VelocityIncrement s"
  "MaxVelocity (scheduleNext s) = MaxVelocity s" "TotalSteps (scheduleNext s) = TotalSteps s"
  "RampSteps (scheduleNext s) = RampSteps s" "RampDownStep (scheduleNext s) = RampDownStep s"
  "AbsolutePosition (scheduleNext s) = AbsolutePosition s"
  "DeltaPosition (scheduleNext s) = DeltaPosition s"
  "Pulses (scheduleNext s) = Pulses s" "Velocity (scheduleNext s) = Velocity s"
  by (simp_all add: scheduleNext_def)

lemma adjustVelocity_fields [simp]:
  "State (adjustVelocity s) = State s" "Homed (adjustVelocity s) = Homed s"
  "TargetPosition (adjustVelocity s) = TargetPosition s"
  "StepIncrement (adjustVelocity s) = StepIncrement s"
  "LowerLimit (adjustVelocity s) = LowerLimit s" "UpperLimit (adjustVelocity s) = UpperLimit s"
  "LLSwitchPin (adjustVelocity s) = LLSwitchPin s" "ULSwitchPin (adjustVelocity s) = ULSwitchPin s"
  "VelocityIncrement (adjustVelocity s) = VelocityIncrement s"
  "MaxVelocity (adjustVelocity s) = MaxVelocity s" "TotalSteps (adjustVelocity s) = TotalSteps s"
  "RampSteps (adjustVelocity s) = RampSteps s" "RampDownStep (adjustVelocity s) = RampDownStep s"
  "AbsolutePosition (adjustVelocity s) = AbsolutePosition s"
  "DeltaPosition (adjustVelocity s) = DeltaPosition s"
  "Pulses (adjustVelocity s) = Pulses s"
  by (simp_all add: adjustVelocity_def Let_def)

lemma adjustVelocity_Velocity:
  "Velocity (adjustVelocity s) =
     (if long_abs (DeltaPosition s) \<le> RampSteps s
      then long_add (Velocity s) (VelocityIncrement s)
      else if long_abs (DeltaPosition s) > RampDownStep s
      then long_sub (Velocity s) (VelocityIncrement s)
      else Velocity s)"
  by (simp add: adjustVelocity_def Let_def)

subsection \<open>One call of Run\<close>

lemma Run_step_eq:
  assumes "Homed s" "State s = MS_RUNNING" "step_due e s"
    and "AbsolutePosition s \<noteq> TargetPosition s"
    and "LowerLimit s \<le> long_add (AbsolutePosition s) (StepIncrement s)"
    and "long_add (AbsolutePosition s) (StepIncrement s) \<le> UpperLimit s"
  shows "Run e s =
    (OKAY, scheduleNext (adjustVelocity
       (s\<lparr> NextPosition := long_add (AbsolutePosition s) (StepIncrement s),
            StepOut := LOW, Pulses := Suc (Pulses s),
            AbsolutePosition := long_add (AbsolutePosition s) (StepIncrement s),
            DeltaPosition := long_add (DeltaPosition s) (StepIncrement s) \<rparr>)))"
  using assms by (auto simp: Run_def doStep_def step_due_def Let_def)

lemma Run_step:
  assumes "Homed s" "State s = MS_RUNNING" "step_due e s"
    and "AbsolutePosition s \<noteq> TargetPosition s"
    and "LowerLimit s \<le> long_add (AbsolutePosition s) (StepIncrement s)"
    and "long_add (AbsolutePosition s) (StepIncrement s) \<le> UpperLimit s"
  shows "fst (Run e s) = OKAY"
    and "AbsolutePosition (snd (Run e s)) = long_add (AbsolutePosition s) (StepIncrement s)"
    and "DeltaPosition (snd (Run e s)) = long_add (DeltaPosition s) (StepIncrement s)"
    and "same_setup s (snd (Run e s))"
    and "Pulses (snd (Run e s)) = Suc (Pulses s)"
    and "Velocity (snd (Run e s)) =
          (if long_abs (long_add (DeltaPosition s) (StepIncrement s)) \<le> RampSteps s
           then long_add (Velocity s) (VelocityIncrement s)
           else if long_abs (long_add (DeltaPosition s) (StepIncrement s)) > RampDownStep s
           then long_sub (Velocity s) (VelocityIncrement s)
           else Velocity s)"
  unfolding Run_step_eq [OF assms]
  by (simp_all add: same_setup_def adjustVelocity_Velocity)

lemma Run_complete:
  "fst (Run e s) = RUN_COMPLETE \<Longrightarrow>
     AbsolutePosition s = TargetPosition s \<and> snd (Run e s) = s\<lparr> State := MS_ENABLED \<rparr>"
  by (simp add: run_defs Let_def split: if_splits)

lemma Run_at_target:
  "Homed s \<Longrightarrow> State s = MS_RUNNING \<Longrightarrow> micros e \<ge> NextStepMicros s \<Longrightarrow>
     AbsolutePosition s = TargetPosition s \<Longrightarrow> Run e s = (RUN_COMPLETE, s\<lparr> State := MS_ENABLED \<rparr>)"
  by (simp add: Run_def)

lemma Run_keeps_offset:
  "AbsolutePosition (snd (Run e s)) = DeltaPosition (snd (Run e s))"
  if "AbsolutePosition s = DeltaPosition s"
  using that by (simp add: run_defs Let_def)

lemma Run_keeps_target: "TargetPosition (snd (Run e s)) = TargetPosition s"
  by (simp add: run_defs Let_def)

subsection \<open>Sequences of calls of Run\<close>


lemma stepping_append: "stepping (es @ es') s = (stepping es s \<and> stepping es' (Runs es s))"
  by (induction es arbitrary: s) simp_all

lemma run_until_complete_append:
  "run_until_complete (es @ es') s =
     (case run_until_complete es s of
        None \<Rightarrow> run_until_complete es' (Runs es s)
      | Some r \<Rightarrow> Some r)"
  by (induction es arbitrary: s) (simp_all split: option.splits)

text \<open>
  A running, homed motor, \<open>d\<close> steps away from its target, with every position on the
  way within the limits, takes one step at each of its first \<open>d\<close> calls of \<open>Run\<close> at
  which a step is due, and none of these calls returns \<open>RUN_COMPLETE\<close>.
\<close>

lemma Runs_steps:
  assumes "stepping es s" "Homed s" "State s = MS_RUNNING"
    and "StepIncrement s = 1 \<or> StepIncrement s = - 1"
    and "TargetPosition s = AbsolutePosition s + StepIncrement s * d"
    and "int (length es) \<le> d"
    and "is_long (AbsolutePosition s)" "is_long (TargetPosition s)"
    and "LowerLimit s \<le> AbsolutePosition s" "AbsolutePosition s \<le> UpperLimit s"
    and "LowerLimit s \<le> TargetPosition s" "TargetPosition s \<le> UpperLimit s"
    and "DeltaPosition s = StepIncrement s * c" "0 \<le> c"
    and "is_long (StepIncrement s * (c + d))"
  shows "AbsolutePosition (Runs es s) = AbsolutePosition s + StepIncrement s * int (length es)
    \<and> DeltaPosition (Runs es s) = StepIncrement s * (c + int (length es))
    \<and> same_setup s (Runs es s)
    \<and> Pulses (Runs es s) = Pulses s + length es
    \<and> run_until_complete es s = None"
  using assms
proof (induction es arbitrary: s c d)
  case Nil
  then show ?case by (simp add: same_setup_def)
next
  case (Cons e es)
  let ?i = "StepIncrement s"
  let ?s1 = "snd (Run e s)"
  have d: "1 \<le> d" using Cons.prems(6) by simp
  have i: "?i = 1 \<or> ?i = - 1" by (rule Cons.prems(4))
  have ne: "AbsolutePosition s \<noteq> TargetPosition s"
    using Cons.prems(5) d i by auto
  have np: "long_add (AbsolutePosition s) ?i = AbsolutePosition s + ?i"
    and npl: "is_long (AbsolutePosition s + ?i)"
    using long_add_step [OF i, of 0 d "AbsolutePosition s"] d Cons.prems(5,7,8) by simp_all
  have lim: "LowerLimit s \<le> AbsolutePosition s + ?i \<and> AbsolutePosition s + ?i \<le> UpperLimit s"
    using between_limits [OF i, of 1 d "LowerLimit s" "AbsolutePosition s" "UpperLimit s"]
      d Cons.prems(5,9-12) by simp
  have now_due: "step_due e s" and rest: "stepping es ?s1"
    using Cons.prems(1) by simp_all
  note st = Run_step [OF Cons.prems(2,3) now_due ne, unfolded np,
      OF conjunct1 [OF lim] conjunct2 [OF lim]]
  have fr: "same_setup s ?s1" by (rule st(4))
  have nd: "long_add (DeltaPosition s) ?i = ?i * (c + 1)"
    using long_add_step [OF i, of c "c + d" 0] d Cons.prems(13-15)
    by (simp add: is_long_def)
  have IH: "AbsolutePosition (Runs es ?s1) = AbsolutePosition ?s1 + StepIncrement ?s1 * int (length es)
    \<and> DeltaPosition (Runs es ?s1) = StepIncrement ?s1 * ((c + 1) + int (length es))
    \<and> same_setup ?s1 (Runs es ?s1)
    \<and> Pulses (Runs es ?s1) = Pulses ?s1 + length es
    \<and> run_until_complete es ?s1 = None"
  proof (rule Cons.IH [where d = "d - 1"])
    show "stepping es ?s1" by (rule rest)
    show "Homed ?s1" "State ?s1 = MS_RUNNING"
      using fr Cons.prems(2,3) by (simp_all add: same_setup_def)
    show "StepIncrement ?s1 = 1 \<or> StepIncrement ?s1 = - 1"
      using fr i by (simp add: same_setup_def)
    show "TargetPosition ?s1 = AbsolutePosition ?s1 + StepIncrement ?s1 * (d - 1)"
      using fr st(2) Cons.prems(5) by (simp add: same_setup_def algebra_simps)
    show "int (length es) \<le> d - 1" using Cons.prems(6) by simp
    show "is_long (AbsolutePosition ?s1)" using st(2) npl by simp
    show "is_long (TargetPosition ?s1)" using fr Cons.prems(8) by (simp add: same_setup_def)
    show "LowerLimit ?s1 \<le> AbsolutePosition ?s1" "AbsolutePosition ?s1 \<le> UpperLimit ?s1"
      using fr st(2) lim by (simp_all add: same_setup_def)
    show "LowerLimit ?s1 \<le> TargetPosition ?s1" "TargetPosition ?s1 \<le> UpperLimit ?s1"
      using fr Cons.prems(11,12) by (simp_all add: same_setup_def)
    show "DeltaPosition ?s1 = StepIncrement ?s1 * (c + 1)"
      using fr st(3) nd by (simp add: same_setup_def)
    show "0 \<le> c + 1" using Cons.prems(14) by simp
    show "is_long (StepIncrement ?s1 * (c + 1 + (d - 1)))"
      using fr Cons.prems(15) by (simp add: same_setup_def)
  qed
  have i1: "StepIncrement ?s1 = ?i" using fr by (simp add: same_setup_def)
  show ?case
    using IH st(1,2,5) fr unfolding i1
    by (simp add: same_setup_def algebra_simps)
qed

section \<open>C1: Run keeps the position within the limits\<close>

text \<open>
  Claim C1.  If \<open>LowerLimit \<le> AbsolutePosition \<le> UpperLimit\<close> holds before a call of
  \<open>Run\<close>, it holds after it, whatever \<open>Run\<close> returns; the limits themselves are not
  changed; and either no pulse is emitted and the position is unchanged, or exactly one
  pulse is emitted and the new position, \<open>AbsolutePosition + StepIncrement\<close>, is within
  the limits.
\<close>

theorem Run_within_limits:
  assumes "LowerLimit s \<le> AbsolutePosition s" "AbsolutePosition s \<le> UpperLimit s"
  shows "LowerLimit (snd (Run e s)) \<le> AbsolutePosition (snd (Run e s))
    \<and> AbsolutePosition (snd (Run e s)) \<le> UpperLimit (snd (Run e s))
    \<and> LowerLimit (snd (Run e s)) = LowerLimit s
    \<and> UpperLimit (snd (Run e s)) = UpperLimit s
    \<and> (Pulses (snd (Run e s)) = Pulses s \<and> AbsolutePosition (snd (Run e s)) = AbsolutePosition s
        \<or> Pulses (snd (Run e s)) = Suc (Pulses s)
          \<and> AbsolutePosition (snd (Run e s)) = long_add (AbsolutePosition s) (StepIncrement s)
          \<and> LowerLimit s \<le> long_add (AbsolutePosition s) (StepIncrement s)
          \<and> long_add (AbsolutePosition s) (StepIncrement s) \<le> UpperLimit s)"
  using assms by (simp add: run_defs Let_def)

text \<open>The first step of a move of five steps from home.\<close>

theorem Run_within_limits_witness:
  "LowerLimit (RotateRelative 5 800 0 (Enable defaultMotor))
     \<le> AbsolutePosition (RotateRelative 5 800 0 (Enable defaultMotor))
   \<and> AbsolutePosition (RotateRelative 5 800 0 (Enable defaultMotor))
     \<le> UpperLimit (RotateRelative 5 800 0 (Enable defaultMotor))
   \<and> AbsolutePosition (snd (Run due (RotateRelative 5 800 0 (Enable defaultMotor)))) = 1
   \<and> LowerLimit (snd (Run due (RotateRelative 5 800 0 (Enable defaultMotor))))
     \<le> AbsolutePosition (snd (Run due (RotateRelative 5 800 0 (Enable defaultMotor))))
   \<and> AbsolutePosition (snd (Run due (RotateRelative 5 800 0 (Enable defaultMotor))))
     \<le> UpperLimit (snd (Run due (RotateRelative 5 800 0 (Enable defaultMotor))))"
proof -
  let ?s = "RotateRelative 5 800 0 (Enable defaultMotor)"
  have lo: "LowerLimit ?s \<le> AbsolutePosition ?s" by code_simp
  have hi: "AbsolutePosition ?s \<le> UpperLimit ?s" by code_simp
  have moved: "AbsolutePosition (snd (Run due ?s)) = 1" by code_simp
  from Run_within_limits [OF lo hi, of due] lo hi moved show ?thesis by blast
qed

section \<open>C2: range errors\<close>

text \<open>
  Claim C2.  Let the motor be homed and running, the step time be reached, and the target
  not yet reached.  If \<open>AbsolutePosition + StepIncrement < LowerLimit\<close> then \<open>Run\<close>
  returns \<open>RANGE_ERROR_LOWER\<close>, sets \<open>State\<close> to \<open>MS_ENABLED\<close>, emits no pulse and leaves
  \<open>AbsolutePosition\<close> and \<open>DeltaPosition\<close> unchanged; if
  \<open>AbsolutePosition + StepIncrement > UpperLimit\<close> the same holds with
  \<open>RANGE_ERROR_UPPER\<close>.  The limits are ordered, \<open>LowerLimit \<le> UpperLimit\<close>, as they are
  in every state the object can reach (see C8).
\<close>

theorem Run_range_error:
  assumes "Homed s" "State s = MS_RUNNING" "micros e \<ge> NextStepMicros s"
    "AbsolutePosition s \<noteq> TargetPosition s" "LowerLimit s \<le> UpperLimit s"
  shows "(long_add (AbsolutePosition s) (StepIncrement s) < LowerLimit s \<longrightarrow>
            fst (Run e s) = RANGE_ERROR_LOWER
            \<and> State (snd (Run e s)) = MS_ENABLED
            \<and> AbsolutePosition (snd (Run e s)) = AbsolutePosition s
            \<and> DeltaPosition (snd (Run e s)) = DeltaPosition s
            \<and> Pulses (snd (Run e s)) = Pulses s)
       \<and> (long_add (AbsolutePosition s) (StepIncrement s) > UpperLimit s \<longrightarrow>
            fst (Run e s) = RANGE_ERROR_UPPER
            \<and> State (snd (Run e s)) = MS_ENABLED
            \<and> AbsolutePosition (snd (Run e s)) = AbsolutePosition s
            \<and> DeltaPosition (snd (Run e s)) = DeltaPosition s
            \<and> Pulses (snd (Run e s)) = Pulses s)"
  using assms by (simp add: run_defs Let_def)

text \<open>
  With the lower limit at 0, a move of three steps downwards from home; with the upper
  limit at 0, a move of three steps upwards.
\<close>

theorem Run_range_error_witness:
  "long_add (AbsolutePosition (RotateRelative (- 3) 800 0 (SetLowerLimit 0 (Enable defaultMotor))))
       (StepIncrement (RotateRelative (- 3) 800 0 (SetLowerLimit 0 (Enable defaultMotor))))
     < LowerLimit (RotateRelative (- 3) 800 0 (SetLowerLimit 0 (Enable defaultMotor)))
   \<and> fst (Run due (RotateRelative (- 3) 800 0 (SetLowerLimit 0 (Enable defaultMotor))))
       = RANGE_ERROR_LOWER
   \<and> State (snd (Run due (RotateRelative (- 3) 800 0 (SetLowerLimit 0 (Enable defaultMotor)))))
       = MS_ENABLED
   \<and> long_add (AbsolutePosition (RotateRelative 3 800 0 (SetUpperLimit 0 (Enable defaultMotor))))
       (StepIncrement (RotateRelative 3 800 0 (SetUpperLimit 0 (Enable defaultMotor))))
     > UpperLimit (RotateRelative 3 800 0 (SetUpperLimit 0 (Enable defaultMotor)))
   \<and> fst (Run due (RotateRelative 3 800 0 (SetUpperLimit 0 (Enable defaultMotor))))
       = RANGE_ERROR_UPPER
   \<and> State (snd (Run due (RotateRelative 3 800 0 (SetUpperLimit 0 (Enable defaultMotor)))))
       = MS_ENABLED"
proof -
  let ?a = "RotateRelative (- 3) 800 0 (SetLowerLimit 0 (Enable defaultMotor))"
  let ?b = "RotateRelative 3 800 0 (SetUpperLimit 0 (Enable defaultMotor))"
  have a: "Homed ?a" "State ?a = MS_RUNNING" "micros due \<ge> NextStepMicros ?a"
    "AbsolutePosition ?a \<noteq> TargetPosition ?a" "LowerLimit ?a \<le> UpperLimit ?a"
    by code_simp+
  have b: "Homed ?b" "State ?b = MS_RUNNING" "micros due \<ge> NextStepMicros ?b"
    "AbsolutePosition ?b \<noteq> TargetPosition ?b" "LowerLimit ?b \<le> UpperLimit ?b"
    by code_simp+
  have below: "long_add (AbsolutePosition ?a) (StepIncrement ?a) < LowerLimit ?a"
    by code_simp
  have above: "long_add (AbsolutePosition ?b) (StepIncrement ?b) > UpperLimit ?b"
    by code_simp
  from Run_range_error [OF a] Run_range_error [OF b] below above show ?thesis by blast
qed

section \<open>C3: rotate operations while not homed\<close>

text \<open>
  Claim C3 says that a rotate operation changes no field when \<open>Homed\<close> is false.  On a
  freshly constructed object, which is not homed, \<open>RotateAbsolute 100 500\<close> stores the
  target 100 and sets \<open>State\<close> to \<open>MS_RUNNING\<close>.
\<close>

theorem rotate_not_homed_counterexample:
  "\<not> Homed defaultMotor
   \<and> State defaultMotor = MS_DISABLED
   \<and> State (RotateAbsolute 100 500 0 defaultMotor) = MS_RUNNING
   \<and> TargetPosition defaultMotor = 0
   \<and> TargetPosition (RotateAbsolute 100 500 0 defaultMotor) = 100
   \<and> RotateAbsolute 100 500 0 defaultMotor \<noteq> defaultMotor"
proof -
  have "State (RotateAbsolute 100 500 0 defaultMotor) = MS_RUNNING"
    by (simp add: RotateAbsolute_def)
  moreover have "State defaultMotor = MS_DISABLED" "\<not> Homed defaultMotor"
    "TargetPosition defaultMotor = 0"
    by (simp_all add: defaultMotor_def StepperMotor_def)
  moreover have "TargetPosition (RotateAbsolute 100 500 0 defaultMotor) = 100"
    by (simp add: RotateAbsolute_def)
  ultimately show ?thesis by auto
qed

text \<open>
  Claim C3, amended.  The test of \<open>Homed\<close> is in \<open>Run\<close>, not in the rotate operations.
  When \<open>Homed\<close> is false, each rotate operation leaves \<open>Homed\<close> false and leaves
  \<open>AbsolutePosition\<close>, both limits and the output pins of the enable and step signals
  as they are, emits no pulse, and \<open>Run\<close> called after it returns \<open>OKAY\<close> and changes no
  field, so that the motor does not move.  The operation does store its target and ramp
  plan and sets \<open>State\<close> to \<open>MS_RUNNING\<close>, except \<open>RotateRelative\<close> with zero steps,
  which changes nothing: \<open>TargetPosition\<close>, \<open>MaxVelocity\<close> and \<open>TotalSteps\<close> receive the
  values the operation computes (in every state, homed or not) and \<open>DeltaPosition\<close>
  becomes 0.
\<close>

theorem rotate_not_homed:
  assumes "\<not> Homed s"
    and "s' \<in> {RotateAbsolute p v now s, RotateRelative n v now s, RotateToHome now s,
              RotateToLowerLimit now s, RotateToUpperLimit now s}"
  shows "\<not> Homed s'
    \<and> AbsolutePosition s' = AbsolutePosition s
    \<and> LowerLimit s' = LowerLimit s
    \<and> UpperLimit s' = UpperLimit s
    \<and> Pulses s' = Pulses s
    \<and> EnableOut s' = EnableOut s
    \<and> StepOut s' = StepOut s
    \<and> (State s' = MS_RUNNING \<or> s' = s)
    \<and> Run e s' = (OKAY, s')
    \<and> State (RotateAbsolute p v now s) = MS_RUNNING
    \<and> TargetPosition (RotateAbsolute p v now s) = p
    \<and> MaxVelocity (RotateAbsolute p v now s) = v
    \<and> TotalSteps (RotateAbsolute p v now s) = long_abs (long_sub p (AbsolutePosition s))
    \<and> DeltaPosition (RotateAbsolute p v now s) = 0
    \<and> (n \<noteq> 0 \<longrightarrow>
          State (RotateRelative n v now s) = MS_RUNNING
          \<and> TargetPosition (RotateRelative n v now s) = long_add (AbsolutePosition s) n
          \<and> MaxVelocity (RotateRelative n v now s) = v
          \<and> TotalSteps (RotateRelative n v now s) = long_abs n
          \<and> DeltaPosition (RotateRelative n v now s) = 0)
    \<and> RotateRelative 0 v now s = s
    \<and> State (RotateToHome now s) = MS_RUNNING
    \<and> TargetPosition (RotateToHome now s) = 0
    \<and> MaxVelocity (RotateToHome now s) = HOMING_SPEED
    \<and> TotalSteps (RotateToHome now s) = long_abs (AbsolutePosition s)
    \<and> DeltaPosition (RotateToHome now s) = 0
    \<and> State (RotateToLowerLimit now s) = MS_RUNNING
    \<and> TargetPosition (RotateToLowerLimit now s) = LowerLimit s
    \<and> MaxVelocity (RotateToLowerLimit now s) = HOMING_SPEED
    \<and> TotalSteps (RotateToLowerLimit now s)
        = long_abs (long_sub (AbsolutePosition s) (LowerLimit s))
    \<and> DeltaPosition (RotateToLowerLimit now s) = 0
    \<and> State (RotateToUpperLimit now s) = MS_RUNNING
    \<and> TargetPosition (RotateToUpperLimit now s) = UpperLimit s
    \<and> MaxVelocity (RotateToUpperLimit now s) = HOMING_SPEED
    \<and> TotalSteps (RotateToUpperLimit now s)
        = long_abs (long_sub (AbsolutePosition s) (UpperLimit s))
    \<and> DeltaPosition (RotateToUpperLimit now s) = 0"
proof -
  have "\<not> Homed s'" and rest: "AbsolutePosition s' = AbsolutePosition s"
    "LowerLimit s' = LowerLimit s" "UpperLimit s' = UpperLimit s" "Pulses s' = Pulses s"
    "EnableOut s' = EnableOut s" "StepOut s' = StepOut s" "State s' = MS_RUNNING \<or> s' = s"
    using assms
    by (auto simp: RotateAbsolute_def RotateRelative_def RotateToHome_def
        RotateToLowerLimit_def RotateToUpperLimit_def split: if_splits)
  then have still: "\<not> Homed s' \<and> AbsolutePosition s' = AbsolutePosition s
    \<and> LowerLimit s' = LowerLimit s \<and> UpperLimit s' = UpperLimit s
    \<and> Pulses s' = Pulses s \<and> EnableOut s' = EnableOut s \<and> StepOut s' = StepOut s
    \<and> (State s' = MS_RUNNING \<or> s' = s) \<and> Run e s' = (OKAY, s')"
    by (simp add: Run_not_homed)
  have stored: "State (RotateAbsolute p v now s) = MS_RUNNING"
    "TargetPosition (RotateAbsolute p v now s) = p"
    "MaxVelocity (RotateAbsolute p v now s) = v"
    "TotalSteps (RotateAbsolute p v now s) = long_abs (long_sub p (AbsolutePosition s))"
    "DeltaPosition (RotateAbsolute p v now s) = 0"
    "n \<noteq> 0 \<longrightarrow>
          State (RotateRelative n v now s) = MS_RUNNING
          \<and> TargetPosition (RotateRelative n v now s) = long_add (AbsolutePosition s) n
          \<and> MaxVelocity (RotateRelative n v now s) = v
          \<and> TotalSteps (RotateRelative n v now s) = long_abs n
          \<and> DeltaPosition (RotateRelative n v now s) = 0"
    "RotateRelative 0 v now s = s"
    "State (RotateToHome now s) = MS_RUNNING"
    "TargetPosition (RotateToHome now s) = 0"
    "MaxVelocity (RotateToHome now s) = HOMING_SPEED"
    "TotalSteps (RotateToHome now s) = long_abs (AbsolutePosition s)"
    "DeltaPosition (RotateToHome now s) = 0"
    "State (RotateToLowerLimit now s) = MS_RUNNING"
    "TargetPosition (RotateToLowerLimit now s) = LowerLimit s"
    "MaxVelocity (RotateToLowerLimit now s) = HOMING_SPEED"
    "TotalSteps (RotateToLowerLimit now s)
        = long_abs (long_sub (AbsolutePosition s) (LowerLimit s))"
    "DeltaPosition (RotateToLowerLimit now s) = 0"
    "State (RotateToUpperLimit now s) = MS_RUNNING"
    "TargetPosition (RotateToUpperLimit now s) = UpperLimit s"
    "MaxVelocity (RotateToUpperLimit now s) = HOMING_SPEED"
    "TotalSteps (RotateToUpperLimit now s)
        = long_abs (long_sub (AbsolutePosition s) (UpperLimit s))"
    "DeltaPosition (RotateToUpperLimit now s) = 0"
    by (simp_all add: RotateAbsolute_def RotateRelative_def RotateToHome_def
        RotateToLowerLimit_def RotateToUpperLimit_def)
  from still stored show ?thesis by blast
qed

text \<open>After an emergency stop the motor is not homed; \<open>RotateToUpperLimit\<close> is then called.\<close>

theorem rotate_not_homed_witness:
  "\<not> Homed (EStop (Enable defaultMotor))
   \<and> \<not> Homed (RotateToUpperLimit 0 (EStop (Enable defaultMotor)))
   \<and> State (RotateToUpperLimit 0 (EStop (Enable defaultMotor))) = MS_RUNNING
   \<and> TargetPosition (RotateToUpperLimit 0 (EStop (Enable defaultMotor))) = 2000000000
   \<and> AbsolutePosition (RotateToUpperLimit 0 (EStop (Enable defaultMotor)))
       = AbsolutePosition (EStop (Enable defaultMotor))
   \<and> Run due (RotateToUpperLimit 0 (EStop (Enable defaultMotor)))
       = (OKAY, RotateToUpperLimit 0 (EStop (Enable defaultMotor)))
   \<and> State (RotateRelative 5 500 0 (EStop (Enable defaultMotor))) = MS_RUNNING
   \<and> TotalSteps (RotateRelative 5 500 0 (EStop (Enable defaultMotor))) = long_abs 5
   \<and> TargetPosition (RotateAbsolute 100 500 0 (EStop (Enable defaultMotor))) = 100"
proof -
  let ?s = "EStop (Enable defaultMotor)"
  have unhomed: "\<not> Homed ?s" by code_simp
  have running: "State (RotateToUpperLimit 0 ?s) = MS_RUNNING" by code_simp
  have target: "TargetPosition (RotateToUpperLimit 0 ?s) = 2000000000" by code_simp
  have steps: "(5 :: int) \<noteq> 0" by simp
  have "RotateToUpperLimit 0 ?s \<in> {RotateAbsolute 100 500 0 ?s, RotateRelative 5 500 0 ?s,
      RotateToHome 0 ?s, RotateToLowerLimit 0 ?s, RotateToUpperLimit 0 ?s}"
    by (intro insertI1 insertI2)
  from rotate_not_homed [OF unhomed this, where e = due] unhomed running target steps
  show ?thesis by blast
qed

section \<open>C4: the sign of the velocity\<close>

text \<open>
  Claim C4 says that \<open>Velocity \<ge> 0\<close> after every call of \<open>Run\<close> of a rotation.  With the
  default ramp, \<open>RotateRelative 1 800\<close> on an enabled motor plans a triangle with
  \<open>RampSteps = RampDownStep = 0\<close> and starts at velocity 0; the single step then counts as
  ramping down, and \<open>Run\<close> returns \<open>OKAY\<close> with \<open>State\<close> still \<open>MS_RUNNING\<close> and
  \<open>Velocity = - 25\<close>.  A triangle of an odd number of steps ramps down for one step more
  than it ramps up (a move of 3 steps goes through the velocities 25, 0 and \<open>- 25\<close>);
  trapezoids and triangles of an even number of steps end at velocity 0.
\<close>

theorem velocity_negative_after_last_step:
  "Homed (RotateRelative 1 800 0 (Enable defaultMotor))
   \<and> State (RotateRelative 1 800 0 (Enable defaultMotor)) = MS_RUNNING
   \<and> VelocityIncrement (RotateRelative 1 800 0 (Enable defaultMotor)) = 25
   \<and> RampSteps (RotateRelative 1 800 0 (Enable defaultMotor)) = 0
   \<and> RampDownStep (RotateRelative 1 800 0 (Enable defaultMotor)) = 0
   \<and> Velocity (RotateRelative 1 800 0 (Enable defaultMotor)) = 0
   \<and> fst (Run due (RotateRelative 1 800 0 (Enable defaultMotor))) = OKAY
   \<and> State (snd (Run due (RotateRelative 1 800 0 (Enable defaultMotor)))) = MS_RUNNING
   \<and> AbsolutePosition (snd (Run due (RotateRelative 1 800 0 (Enable defaultMotor)))) = 1
   \<and> Velocity (snd (Run due (RotateRelative 1 800 0 (Enable defaultMotor)))) = - 25
   \<and> RampSteps (RotateRelative 3 800 0 (Enable defaultMotor)) = 1
   \<and> RampDownStep (RotateRelative 3 800 0 (Enable defaultMotor)) = 1
   \<and> Velocity (Runs [due] (RotateRelative 3 800 0 (Enable defaultMotor))) = 25
   \<and> Velocity (Runs [due, due] (RotateRelative 3 800 0 (Enable defaultMotor))) = 0
   \<and> State (Runs [due, due, due] (RotateRelative 3 800 0 (Enable defaultMotor))) = MS_RUNNING
   \<and> Velocity (Runs [due, due, due] (RotateRelative 3 800 0 (Enable defaultMotor))) = - 25"
  by code_simp

section \<open>C5: the ramp plan of startRotation\<close>

lemma cpp_div_nonneg: "0 \<le> a \<Longrightarrow> 0 \<le> b \<Longrightarrow> cpp_div a b = a div b"
  by (cases "a = 0"; cases "b = 0") (simp_all add: cpp_div_def sgn_if)

lemma long_div_trunc: "is_long (cpp_div a b) \<Longrightarrow> long_div a b = cpp_div a b"
  by (simp add: long_div_def cpp_div_def s32_id)

lemma is_long_half: "is_long (2 * x) \<Longrightarrow> is_long x"
  by (simp add: is_long_def)

text \<open>
  Claim C5 says that the starting velocity is 0 when the quotient
  \<open>MaxVelocity / VelocityIncrement\<close> is positive and \<open>MaxVelocity\<close> otherwise.  The source
  tests the quotient against 0 (\<^verbatim>\<open>RampSteps == 0L\<close>), and neither \<open>RotateRelative\<close> nor
  the command parser refuses a negative velocity: \<open>RotateRelative 10 (- 110)\<close> at the
  default ramp (increment 25) gives the quotient \<open>- 4\<close>, which is not positive, and the
  starting velocity 0, which is not \<open>MaxVelocity\<close>.
\<close>

theorem startRotation_negative_velocity:
  "VelocityIncrement (RotateRelative 10 (- 110) 0 (Enable defaultMotor)) = 25
   \<and> TotalSteps (RotateRelative 10 (- 110) 0 (Enable defaultMotor)) = 10
   \<and> MaxVelocity (RotateRelative 10 (- 110) 0 (Enable defaultMotor)) = - 110
   \<and> long_div (- 110) 25 = - 4
   \<and> \<not> long_div (- 110) 25 > 0
   \<and> RampSteps (RotateRelative 10 (- 110) 0 (Enable defaultMotor)) = - 4
   \<and> RampDownStep (RotateRelative 10 (- 110) 0 (Enable defaultMotor)) = 14
   \<and> Velocity (RotateRelative 10 (- 110) 0 (Enable defaultMotor)) = 0
   \<and> Velocity (RotateRelative 10 (- 110) 0 (Enable defaultMotor))
       \<noteq> MaxVelocity (RotateRelative 10 (- 110) 0 (Enable defaultMotor))"
  by code_simp

text \<open>
  Claim C5, amended.  Let \<open>TotalSteps\<close> be a non-negative \<^verbatim>\<open>long\<close>, let
  \<open>R = MaxVelocity / VelocityIncrement\<close> be the quotient of C++, which truncates towards
  zero (\<open>cpp_div\<close>; it is \<open>div\<close> when neither operand is negative), and let
  \<^verbatim>\<open>2L * RampSteps\<close> and \<^verbatim>\<open>TotalSteps - RampSteps\<close> not overflow.  When
  \<open>VelocityIncrement\<close> is not 0, \<open>startRotation\<close> starts at velocity \<open>MaxVelocity\<close> when
  \<open>R = 0\<close> and at velocity 0 otherwise, also when \<open>R\<close> is negative, and then plans a
  trapezoid, \<open>RampSteps = R\<close> and \<open>RampDownStep = TotalSteps - R\<close>, when
  \<open>TotalSteps > 2 * R\<close>, and a triangle, \<open>RampSteps = RampDownStep = TotalSteps div 2\<close>,
  otherwise.  When \<open>VelocityIncrement\<close> is 0, \<open>RampSteps\<close> is 0 and the starting velocity
  is \<open>MaxVelocity\<close>.  Nothing is assumed of the sign of \<open>MaxVelocity\<close> or of
  \<open>VelocityIncrement\<close>.
\<close>

theorem startRotation_plan:
  assumes "0 \<le> TotalSteps s" "is_long (TotalSteps s)"
    and "is_long (2 * cpp_div (MaxVelocity s) (VelocityIncrement s))"
    and "is_long (TotalSteps s - cpp_div (MaxVelocity s) (VelocityIncrement s))"
  shows "(VelocityIncrement s \<noteq> 0 \<longrightarrow>
           Velocity (startRotation now s)
             = (if cpp_div (MaxVelocity s) (VelocityIncrement s) = 0 then MaxVelocity s else 0)
           \<and> (if TotalSteps s > 2 * cpp_div (MaxVelocity s) (VelocityIncrement s)
              then RampSteps (startRotation now s)
                     = cpp_div (MaxVelocity s) (VelocityIncrement s)
                 \<and> RampDownStep (startRotation now s)
                     = TotalSteps s - cpp_div (MaxVelocity s) (VelocityIncrement s)
              else RampSteps (startRotation now s) = TotalSteps s div 2
                 \<and> RampDownStep (startRotation now s) = TotalSteps s div 2))
       \<and> (VelocityIncrement s = 0 \<longrightarrow>
           RampSteps (startRotation now s) = 0
           \<and> RampDownStep (startRotation now s) = TotalSteps s
           \<and> Velocity (startRotation now s) = MaxVelocity s)
       \<and> (0 \<le> MaxVelocity s \<and> 0 \<le> VelocityIncrement s \<longrightarrow>
           cpp_div (MaxVelocity s) (VelocityIncrement s)
             = MaxVelocity s div VelocityIncrement s)"
proof -
  let ?R = "cpp_div (MaxVelocity s) (VelocityIncrement s)"
  have R: "long_div (MaxVelocity s) (VelocityIncrement s) = ?R"
    using assms(3) by (simp add: long_div_trunc is_long_half)
  have twoR: "long_mul 2 ?R = 2 * ?R"
    using assms(3) by (simp add: long_mul_def s32_id)
  have half: "long_div (TotalSteps s) 2 = TotalSteps s div 2"
    using assms(1,2) by (simp add: long_div_nonneg)
  have sub: "long_sub (TotalSteps s) ?R = TotalSteps s - ?R"
    using assms(4) by (simp add: long_sub_def s32_id)
  have sub0: "long_sub (TotalSteps s) 0 = TotalSteps s"
    using assms(2) by (simp add: long_sub_def s32_id)
  have mul0: "long_mul 2 0 = 0" by (simp add: long_mul_def s32_def)
  have plan: "VelocityIncrement s \<noteq> 0 \<Longrightarrow>
      Velocity (startRotation now s) = (if ?R = 0 then MaxVelocity s else 0)
      \<and> (if TotalSteps s > 2 * ?R
         then RampSteps (startRotation now s) = ?R
            \<and> RampDownStep (startRotation now s) = TotalSteps s - ?R
         else RampSteps (startRotation now s) = TotalSteps s div 2
            \<and> RampDownStep (startRotation now s) = TotalSteps s div 2)"
    using R twoR half sub sub0 mul0 by (auto simp: startRotation_def Let_def)
  have flat: "VelocityIncrement s = 0 \<Longrightarrow>
      RampSteps (startRotation now s) = 0
      \<and> RampDownStep (startRotation now s) = TotalSteps s
      \<and> Velocity (startRotation now s) = MaxVelocity s"
    using assms(1) half sub0 mul0 by (auto simp: startRotation_def Let_def)
  show ?thesis using plan flat by (simp add: cpp_div_nonneg)
qed

text \<open>
  At the default ramp (increment 25): 1000 steps at 800 steps per second give a trapezoid
  with 32 ramp steps, 51 steps a triangle; 10 steps at \<open>- 110\<close> steps per second give
  the quotient \<open>- 4\<close> and the starting velocity 0; 1000 steps at 20 steps per second give
  the quotient 0 and the starting velocity 20.
\<close>

theorem startRotation_plan_witness:
  "VelocityIncrement defaultMotor = 25
   \<and> Velocity (startRotation 0 (defaultMotor\<lparr> MaxVelocity := 800, TotalSteps := 1000 \<rparr>)) = 0
   \<and> RampSteps (startRotation 0 (defaultMotor\<lparr> MaxVelocity := 800, TotalSteps := 1000 \<rparr>)) = 32
   \<and> RampDownStep (startRotation 0 (defaultMotor\<lparr> MaxVelocity := 800, TotalSteps := 1000 \<rparr>)) = 968
   \<and> RampSteps (startRotation 0 (defaultMotor\<lparr> MaxVelocity := 800, TotalSteps := 51 \<rparr>)) = 25
   \<and> RampDownStep (startRotation 0 (defaultMotor\<lparr> MaxVelocity := 800, TotalSteps := 51 \<rparr>)) = 25
   \<and> Velocity (startRotation 0 (defaultMotor\<lparr> MaxVelocity := - 110, TotalSteps := 10 \<rparr>)) = 0
   \<and> RampSteps (startRotation 0 (defaultMotor\<lparr> MaxVelocity := - 110, TotalSteps := 10 \<rparr>)) = - 4
   \<and> RampDownStep (startRotation 0 (defaultMotor\<lparr> MaxVelocity := - 110, TotalSteps := 10 \<rparr>)) = 14
   \<and> Velocity (startRotation 0 (defaultMotor\<lparr> MaxVelocity := 20, TotalSteps := 1000 \<rparr>)) = 20
   \<and> RampSteps (startRotation 0 (defaultMotor\<lparr> MaxVelocity := 20, TotalSteps := 1000 \<rparr>)) = 0
   \<and> RampDownStep (startRotation 0 (defaultMotor\<lparr> MaxVelocity := 20, TotalSteps := 1000 \<rparr>)) = 1000"
proof -
  have vi: "VelocityIncrement defaultMotor = 25" by code_simp
  let ?a = "defaultMotor\<lparr> MaxVelocity := 800, TotalSteps := 1000 \<rparr>"
  let ?b = "defaultMotor\<lparr> MaxVelocity := 800, TotalSteps := 51 \<rparr>"
  let ?c = "defaultMotor\<lparr> MaxVelocity := - 110, TotalSteps := 10 \<rparr>"
  let ?d = "defaultMotor\<lparr> MaxVelocity := 20, TotalSteps := 1000 \<rparr>"
  have q: "cpp_div 800 25 = 32" "cpp_div (- 110) 25 = - 4" "cpp_div 20 25 = 0"
    by (simp_all add: cpp_div_def)
  have a: "0 \<le> TotalSteps ?a" "is_long (TotalSteps ?a)"
    "is_long (2 * cpp_div (MaxVelocity ?a) (VelocityIncrement ?a))"
    "is_long (TotalSteps ?a - cpp_div (MaxVelocity ?a) (VelocityIncrement ?a))"
    by (simp_all add: vi q is_long_def)
  have b: "0 \<le> TotalSteps ?b" "is_long (TotalSteps ?b)"
    "is_long (2 * cpp_div (MaxVelocity ?b) (VelocityIncrement ?b))"
    "is_long (TotalSteps ?b - cpp_div (MaxVelocity ?b) (VelocityIncrement ?b))"
    by (simp_all add: vi q is_long_def)
  have c: "0 \<le> TotalSteps ?c" "is_long (TotalSteps ?c)"
    "is_long (2 * cpp_div (MaxVelocity ?c) (VelocityIncrement ?c))"
    "is_long (TotalSteps ?c - cpp_div (MaxVelocity ?c) (VelocityIncrement ?c))"
    by (simp_all add: vi q is_long_def)
  have d: "0 \<le> TotalSteps ?d" "is_long (TotalSteps ?d)"
    "is_long (2 * cpp_div (MaxVelocity ?d) (VelocityIncrement ?d))"
    "is_long (TotalSteps ?d - cpp_div (MaxVelocity ?d) (VelocityIncrement ?d))"
    by (simp_all add: vi q is_long_def)
  from startRotation_plan [OF a, of 0] startRotation_plan [OF b, of 0]
    startRotation_plan [OF c, of 0] startRotation_plan [OF d, of 0] vi q
  show ?thesis by simp
qed

section \<open>C6: the velocity of a trapezoid\<close>






section \<open>C7: emergency stop\<close>

lemma exec_stays_unhomed:
  assumes "exec c s = Some s'" "\<not> enables c" "\<not> Homed s" "State s \<noteq> MS_ENABLED"
  shows "\<not> Homed s' \<and> State s' \<noteq> MS_ENABLED"
  using assms
  by (cases c)
    (auto simp: Run_not_homed Disable_def SetHomePosition_def SetLowerLimit_def
       SetUpperLimit_def SetRamp_def EStop_def RotateAbsolute_def RotateRelative_def
       RotateToHome_def RotateToLowerLimit_def RotateToUpperLimit_def split: if_splits)

lemma execs_stays_unhomed:
  "execs cs s = Some s' \<Longrightarrow> \<forall>c \<in> set cs. \<not> enables c \<Longrightarrow> \<not> Homed s \<Longrightarrow>
     State s \<noteq> MS_ENABLED \<Longrightarrow> \<not> Homed s'"
proof (induction cs arbitrary: s)
  case Nil
  then show ?case by simp
next
  case (Cons c cs)
  then obtain s1 where s1: "exec c s = Some s1" and rest: "execs cs s1 = Some s'"
    by (auto split: option.splits)
  from exec_stays_unhomed [OF s1] Cons.prems have "\<not> Homed s1 \<and> State s1 \<noteq> MS_ENABLED"
    by simp
  with Cons.IH [OF rest] Cons.prems(2) show ?case by simp
qed

text \<open>
  Claim C7.  In every state, \<open>EStop\<close> sets \<open>State\<close> to \<open>MS_ESTOPPED\<close>, clears \<open>Homed\<close> and
  sets \<open>TargetPosition\<close> to the current \<open>AbsolutePosition\<close>, which it leaves as it is; the
  enable output goes \<^verbatim>\<open>HIGH\<close> (driver off) and the step output \<^verbatim>\<open>LOW\<close>.  Afterwards \<open>Run\<close> returns
  \<open>OKAY\<close> and changes no field, and this stays so after any further calls among which
  there is no \<open>Enable\<close> (nor \<open>FindHome\<close>, which calls it).
\<close>

theorem EStop_halts:
  "State (EStop s) = MS_ESTOPPED
   \<and> \<not> Homed (EStop s)
   \<and> TargetPosition (EStop s) = AbsolutePosition s
   \<and> AbsolutePosition (EStop s) = AbsolutePosition s
   \<and> EnableOut (EStop s) = HIGH
   \<and> StepOut (EStop s) = LOW
   \<and> Run e (EStop s) = (OKAY, EStop s)
   \<and> ((\<forall>c \<in> set cs. \<not> enables c) \<and> execs cs (EStop s) = Some s' \<longrightarrow> Run e s' = (OKAY, s'))"
proof -
  have "Run e s' = (OKAY, s')" if "\<forall>c \<in> set cs. \<not> enables c" "execs cs (EStop s) = Some s'"
    using execs_stays_unhomed [OF that(2,1)] by (simp add: Run_not_homed EStop_def)
  then show ?thesis by (simp add: Run_not_homed EStop_def)
qed

text \<open>
  An emergency stop two steps into a move to position 5, followed by a rotate command, a
  call of \<open>Run\<close>, \<open>SetHomePosition\<close> and another rotate command.
\<close>

theorem EStop_halts_witness:
  "State (Runs [due, due] (RotateAbsolute 5 800 0 (Enable defaultMotor))) = MS_RUNNING
   \<and> AbsolutePosition (Runs [due, due] (RotateAbsolute 5 800 0 (Enable defaultMotor))) = 2
   \<and> State (EStop (Runs [due, due] (RotateAbsolute 5 800 0 (Enable defaultMotor)))) = MS_ESTOPPED
   \<and> TargetPosition (EStop (Runs [due, due] (RotateAbsolute 5 800 0 (Enable defaultMotor)))) = 2
   \<and> execs [CRotateAbsolute 9 800 0, CRun due, CSetHomePosition, CRotateToHome 0]
        (EStop (Runs [due, due] (RotateAbsolute 5 800 0 (Enable defaultMotor))))
      = Some (RotateToHome 0 (SetHomePosition (snd (Run due (RotateAbsolute 9 800 0
          (EStop (Runs [due, due] (RotateAbsolute 5 800 0 (Enable defaultMotor)))))))))
   \<and> Run due (RotateToHome 0 (SetHomePosition (snd (Run due (RotateAbsolute 9 800 0
          (EStop (Runs [due, due] (RotateAbsolute 5 800 0 (Enable defaultMotor)))))))))
      = (OKAY, RotateToHome 0 (SetHomePosition (snd (Run due (RotateAbsolute 9 800 0
          (EStop (Runs [due, due] (RotateAbsolute 5 800 0 (Enable defaultMotor)))))))))"
proof -
  let ?s = "Runs [due, due] (RotateAbsolute 5 800 0 (Enable defaultMotor))"
  let ?cs = "[CRotateAbsolute 9 800 0, CRun due, CSetHomePosition, CRotateToHome 0]"
  let ?s' = "RotateToHome 0 (SetHomePosition (snd (Run due (RotateAbsolute 9 800 0 (EStop ?s)))))"
  have running: "State ?s = MS_RUNNING" by code_simp
  have at2: "AbsolutePosition ?s = 2" by code_simp
  have calls: "\<forall>c \<in> set ?cs. \<not> enables c" by simp
  have ex: "execs ?cs (EStop ?s) = Some ?s'" by simp
  from EStop_halts [of ?s due ?cs ?s'] running at2 calls ex show ?thesis by simp
qed

section \<open>C8: the limit setters and the invariant of the limits\<close>

lemma seekSwitch_limits:
  "seekSwitch reads s = Some (reads', s') \<Longrightarrow>
     LowerLimit s' = LowerLimit s \<and> UpperLimit s' = UpperLimit s"
  by (induction reads s rule: seekSwitch.induct) (auto split: if_splits)

lemma backOff_limits:
  "backOff reads s = Some (reads', s') \<Longrightarrow>
     LowerLimit s' = LowerLimit s \<and> UpperLimit s' = UpperLimit s"
  by (induction reads s rule: backOff.induct) (auto split: if_splits)

lemma FindHome_limits:
  "FindHome reads s = Some s' \<Longrightarrow> LowerLimit s' = LowerLimit s \<and> UpperLimit s' = UpperLimit s"
  by (auto simp: FindHome_def split: if_splits option.splits
      dest!: seekSwitch_limits backOff_limits)

lemma exec_limits:
  assumes "exec c s = Some s'" "LowerLimit s \<le> 0" "0 \<le> UpperLimit s"
  shows "LowerLimit s' \<le> 0 \<and> 0 \<le> UpperLimit s'"
proof (cases c)
  case (CFindHome reads)
  with assms show ?thesis using FindHome_limits [of reads s s'] by simp
next
  case (CSetLowerLimit v)
  with assms show ?thesis by (auto simp: SetLowerLimit_def)
next
  case (CSetUpperLimit v)
  with assms show ?thesis by (auto simp: SetUpperLimit_def)
qed (use assms in \<open>auto simp: Disable_def SetRamp_def EStop_def RotateAbsolute_def
       RotateRelative_def RotateToHome_def RotateToLowerLimit_def RotateToUpperLimit_def\<close>)

lemma execs_limits:
  "execs cs s = Some s' \<Longrightarrow> LowerLimit s \<le> 0 \<Longrightarrow> 0 \<le> UpperLimit s \<Longrightarrow>
     LowerLimit s' \<le> 0 \<and> 0 \<le> UpperLimit s'"
proof (induction cs arbitrary: s)
  case Nil
  then show ?case by simp
next
  case (Cons c cs)
  then obtain s1 where s1: "exec c s = Some s1" and rest: "execs cs s1 = Some s'"
    by (auto split: option.splits)
  from exec_limits [OF s1 Cons.prems(2,3)] Cons.IH [OF rest] show ?case by simp
qed

text \<open>
  Claim C8.  \<open>SetLowerLimit v\<close> stores \<open>v\<close> in \<open>LowerLimit\<close> exactly when \<open>v \<le> 0\<close> and
  \<open>v \<le> UpperLimit\<close>, and otherwise leaves it as it was; \<open>SetUpperLimit v\<close> stores \<open>v\<close> in
  \<open>UpperLimit\<close> exactly when \<open>v \<ge> 0\<close> and \<open>v \<ge> LowerLimit\<close>; neither touches the other
  limit.  Consequently, after any sequence of calls on a freshly constructed object,
  \<open>LowerLimit \<le> 0 \<le> UpperLimit\<close>.
\<close>

theorem limits_invariant:
  "LowerLimit (SetLowerLimit v s) = (if v \<le> 0 \<and> v \<le> UpperLimit s then v else LowerLimit s)
   \<and> UpperLimit (SetLowerLimit v s) = UpperLimit s
   \<and> UpperLimit (SetUpperLimit v s) = (if v \<ge> 0 \<and> v \<ge> LowerLimit s then v else UpperLimit s)
   \<and> LowerLimit (SetUpperLimit v s) = LowerLimit s
   \<and> (execs cs (StepperMotor enablePin directionPin stepPin llSwitchPin ulSwitchPin) = Some s'
        \<longrightarrow> LowerLimit s' \<le> 0 \<and> 0 \<le> UpperLimit s')"
proof -
  have "execs cs (StepperMotor enablePin directionPin stepPin llSwitchPin ulSwitchPin) = Some s'
        \<longrightarrow> LowerLimit s' \<le> 0 \<and> 0 \<le> UpperLimit s'"
    using execs_limits [of cs "StepperMotor enablePin directionPin stepPin llSwitchPin ulSwitchPin" s']
    by (simp add: StepperMotor_def)
  then show ?thesis by (simp add: SetLowerLimit_def SetUpperLimit_def)
qed

text \<open>
  The limits are set to \<open>- 1000\<close> and 1000; a lower limit of 5 and an upper limit of
  \<open>- 7\<close> are then refused.
\<close>

theorem limits_invariant_witness:
  "execs [CEnable, CSetLowerLimit (- 1000), CSetUpperLimit 1000, CSetLowerLimit 5,
          CSetUpperLimit (- 7)] (StepperMotor 2 3 4 (- 1) (- 1))
     = Some (SetUpperLimit (- 7) (SetLowerLimit 5 (SetUpperLimit 1000
         (SetLowerLimit (- 1000) (Enable (StepperMotor 2 3 4 (- 1) (- 1)))))))
   \<and> LowerLimit (SetUpperLimit (- 7) (SetLowerLimit 5 (SetUpperLimit 1000
         (SetLowerLimit (- 1000) (Enable (StepperMotor 2 3 4 (- 1) (- 1))))))) = - 1000
   \<and> UpperLimit (SetUpperLimit (- 7) (SetLowerLimit 5 (SetUpperLimit 1000
         (SetLowerLimit (- 1000) (Enable (StepperMotor 2 3 4 (- 1) (- 1))))))) = 1000
   \<and> LowerLimit (SetUpperLimit (- 7) (SetLowerLimit 5 (SetUpperLimit 1000
         (SetLowerLimit (- 1000) (Enable (StepperMotor 2 3 4 (- 1) (- 1))))))) \<le> 0
   \<and> 0 \<le> UpperLimit (SetUpperLimit (- 7) (SetLowerLimit 5 (SetUpperLimit 1000
         (SetLowerLimit (- 1000) (Enable (StepperMotor 2 3 4 (- 1) (- 1)))))))"
proof -
  let ?m = "StepperMotor 2 3 4 (- 1) (- 1)"
  let ?cs = "[CEnable, CSetLowerLimit (- 1000), CSetUpperLimit 1000, CSetLowerLimit 5,
              CSetUpperLimit (- 7)]"
  let ?a = "SetUpperLimit 1000 (SetLowerLimit (- 1000) (Enable ?m))"
  let ?s' = "SetUpperLimit (- 7) (SetLowerLimit 5 ?a)"
  have ex: "execs ?cs ?m = Some ?s'" by simp
  have lo: "LowerLimit ?s' = - 1000" by code_simp
  have hi: "UpperLimit ?s' = 1000" by code_simp
  from limits_invariant [where v = 5 and s = ?a and cs = ?cs and enablePin = 2
      and directionPin = 3 and stepPin = 4 and llSwitchPin = "- 1" and ulSwitchPin = "- 1"
      and s' = ?s'] ex lo hi
  show ?thesis by blast
qed

section \<open>C9: a relative move, driven to completion\<close>

lemma run_until_complete_at_target:
  "run_until_complete es s = Some s' \<Longrightarrow> AbsolutePosition s = DeltaPosition s \<Longrightarrow>
     AbsolutePosition s' = TargetPosition s \<and> DeltaPosition s' = TargetPosition s"
proof (induction es arbitrary: s)
  case Nil
  then show ?case by simp
next
  case (Cons e es)
  show ?case
  proof (cases "fst (Run e s) = RUN_COMPLETE")
    case True
    with Cons.prems Run_complete [OF True] show ?thesis by auto
  next
    case False
    with Cons.prems have "run_until_complete es (snd (Run e s)) = Some s'" by simp
    from Cons.IH [OF this Run_keeps_offset [OF Cons.prems(2)]] show ?thesis
      by (simp add: Run_keeps_target)
  qed
qed

lemma homed_relative_start:
  assumes "n \<noteq> 0" "is_long n"
  shows "Homed (RotateRelative n v now (SetHomePosition (Enable m)))"
    and "State (RotateRelative n v now (SetHomePosition (Enable m))) = MS_RUNNING"
    and "AbsolutePosition (RotateRelative n v now (SetHomePosition (Enable m))) = 0"
    and "DeltaPosition (RotateRelative n v now (SetHomePosition (Enable m))) = 0"
    and "TargetPosition (RotateRelative n v now (SetHomePosition (Enable m))) = n"
    and "StepIncrement (RotateRelative n v now (SetHomePosition (Enable m)))
          = (if n \<ge> 0 then 1 else - 1)"
    and "LowerLimit (RotateRelative n v now (SetHomePosition (Enable m))) = LowerLimit m"
    and "UpperLimit (RotateRelative n v now (SetHomePosition (Enable m))) = UpperLimit m"
    and "Pulses (RotateRelative n v now (SetHomePosition (Enable m))) = Pulses m"
  using assms
  by (simp_all add: RotateRelative_def SetHomePosition_def Enable_def startRotation_def
      Let_def long_add_def s32_id)

text \<open>
  Claim C9.  Let \<open>n\<close> be a non-zero \<^verbatim>\<open>long\<close> and let \<open>Enable\<close>, \<open>SetHomePosition\<close> and
  \<open>RotateRelative n v\<close> be called in any state.  Whenever the loop that calls \<open>Run\<close>
  until it returns \<open>RUN_COMPLETE\<close> ends, \<open>AbsolutePosition\<close> and \<open>DeltaPosition\<close> are both
  \<open>n\<close>.  And it does end: if \<open>n\<close> is within the limits (which enclose 0, see C8), then
  \<open>\<bar>n\<bar> + 1\<close> calls of \<open>Run\<close>, each made when the step time is reached and no limit
  switch is asserted, end with \<open>RUN_COMPLETE\<close> after exactly \<open>\<bar>n\<bar>\<close> pulses.  The
  velocity \<open>v\<close> only sets the step times; nothing is assumed of it.
\<close>

theorem relative_roundtrip:
  assumes "n \<noteq> 0" "is_long n"
  shows "(run_until_complete es (RotateRelative n v now (SetHomePosition (Enable m))) = Some s'
           \<longrightarrow> AbsolutePosition s' = n \<and> DeltaPosition s' = n)
       \<and> (LowerLimit m \<le> 0 \<and> 0 \<le> UpperLimit m
          \<and> LowerLimit m \<le> n \<and> n \<le> UpperLimit m
          \<and> stepping es (RotateRelative n v now (SetHomePosition (Enable m)))
          \<and> length es = nat \<bar>n\<bar> + 1
           \<longrightarrow> (\<exists>s''. run_until_complete es (RotateRelative n v now (SetHomePosition (Enable m)))
                         = Some s''
                     \<and> AbsolutePosition s'' = n \<and> DeltaPosition s'' = n
                     \<and> State s'' = MS_ENABLED
                     \<and> Pulses s'' = Pulses m + nat \<bar>n\<bar>))"
proof (intro conjI impI)
  let ?s = "RotateRelative n v now (SetHomePosition (Enable m))"
  note start = homed_relative_start [OF assms, of v now m]
  {
    assume "run_until_complete es ?s = Some s'"
    from run_until_complete_at_target [OF this] start(3,4,5)
    show "AbsolutePosition s' = n" "DeltaPosition s' = n" by simp_all
  }
  assume a: "LowerLimit m \<le> 0 \<and> 0 \<le> UpperLimit m \<and> LowerLimit m \<le> n \<and> n \<le> UpperLimit m
    \<and> stepping es ?s \<and> length es = nat \<bar>n\<bar> + 1"
  then obtain es1 e where es: "es = es1 @ [e]"
    by (cases es rule: rev_cases) auto
  with a have len: "int (length es1) = \<bar>n\<bar>" by simp
  from a es have st1: "stepping es1 ?s" and last: "step_due e (Runs es1 ?s)"
    by (simp_all add: stepping_append)
  have i: "StepIncrement ?s * \<bar>n\<bar> = n" using start(6) by simp
  have steps: "AbsolutePosition (Runs es1 ?s) = AbsolutePosition ?s + StepIncrement ?s * int (length es1)
    \<and> DeltaPosition (Runs es1 ?s) = StepIncrement ?s * (0 + int (length es1))
    \<and> same_setup ?s (Runs es1 ?s)
    \<and> Pulses (Runs es1 ?s) = Pulses ?s + length es1
    \<and> run_until_complete es1 ?s = None"
  proof (rule Runs_steps [where d = "\<bar>n\<bar>"])
    show "StepIncrement ?s = 1 \<or> StepIncrement ?s = - 1" using start(6) by simp
    show "TargetPosition ?s = AbsolutePosition ?s + StepIncrement ?s * \<bar>n\<bar>"
      using start(3,5) i by simp
    show "is_long (StepIncrement ?s * (0 + \<bar>n\<bar>))" using i assms(2) by simp
    show "DeltaPosition ?s = StepIncrement ?s * 0" using start(4) by simp
  qed (use a start st1 len assms in \<open>simp_all add: is_long_def\<close>)
  let ?t = "Runs es1 ?s"
  from steps len i start have t: "AbsolutePosition ?t = n" "DeltaPosition ?t = n"
    "Homed ?t" "State ?t = MS_RUNNING" "TargetPosition ?t = n"
    "Pulses ?t = Pulses m + nat \<bar>n\<bar>"
    by (simp_all add: same_setup_def)
  from last have "micros e \<ge> NextStepMicros ?t" by (simp add: step_due_def)
  from Run_at_target [OF t(3,4) this] t(1,5)
  have "Run e ?t = (RUN_COMPLETE, ?t\<lparr> State := MS_ENABLED \<rparr>)" by simp
  with steps es have "run_until_complete es ?s = Some (?t\<lparr> State := MS_ENABLED \<rparr>)"
    by (simp add: run_until_complete_append)
  with t show "\<exists>s''. run_until_complete es ?s = Some s''
      \<and> AbsolutePosition s'' = n \<and> DeltaPosition s'' = n
      \<and> State s'' = MS_ENABLED \<and> Pulses s'' = Pulses m + nat \<bar>n\<bar>"
    by simp
qed

text \<open>Two steps downwards from home, on the object of the default arguments.\<close>

theorem relative_roundtrip_witness:
  "stepping [due, due, due] (RotateRelative (- 2) 800 0 (SetHomePosition (Enable defaultMotor)))
   \<and> (\<exists>s''. run_until_complete [due, due, due]
              (RotateRelative (- 2) 800 0 (SetHomePosition (Enable defaultMotor))) = Some s''
         \<and> AbsolutePosition s'' = - 2 \<and> DeltaPosition s'' = - 2
         \<and> State s'' = MS_ENABLED \<and> Pulses s'' = 2)"
proof -
  let ?s = "RotateRelative (- 2) 800 0 (SetHomePosition (Enable defaultMotor))"
  have n: "(- 2 :: int) \<noteq> 0" "is_long (- 2)" by (simp_all add: is_long_def)
  have lim: "LowerLimit defaultMotor \<le> 0" "0 \<le> UpperLimit defaultMotor"
    "LowerLimit defaultMotor \<le> - 2" "- 2 \<le> UpperLimit defaultMotor"
    by code_simp+
  have p: "Pulses defaultMotor = 0" by code_simp
  have st: "stepping [due, due, due] ?s" by code_simp
  have len: "length [due, due, due] = nat \<bar>- 2 :: int\<bar> + 1" by simp
  from relative_roundtrip [OF n, where v = 800 and now = 0 and m = defaultMotor
      and es = "[due, due, due]" and s' = defaultMotor] lim st len
  have "\<exists>s''. run_until_complete [due, due, due] ?s = Some s''
      \<and> AbsolutePosition s'' = - 2 \<and> DeltaPosition s'' = - 2
      \<and> State s'' = MS_ENABLED \<and> Pulses s'' = Pulses defaultMotor + nat \<bar>- 2 :: int\<bar>"
    by blast
  moreover have "Pulses defaultMotor + nat \<bar>- 2 :: int\<bar> = 2" using p by simp
  ultimately have "\<exists>s''. run_until_complete [due, due, due] ?s = Some s''
      \<and> AbsolutePosition s'' = - 2 \<and> DeltaPosition s'' = - 2
      \<and> State s'' = MS_ENABLED \<and> Pulses s'' = 2"
    by (simp only:)
  with st show ?thesis by (rule conjI)
qed

section \<open>C10: SetHomePosition acts only when enabled\<close>

text \<open>
  Claim C10.  In every state whose \<open>State\<close> is not \<open>MS_ENABLED\<close> (that is, \<open>MS_DISABLED\<close>,
  \<open>MS_RUNNING\<close> or \<open>MS_ESTOPPED\<close>) \<open>SetHomePosition\<close> changes no field at all; when
  \<open>State\<close> is \<open>MS_ENABLED\<close> it sets \<open>AbsolutePosition\<close> and \<open>DeltaPosition\<close> to 0 and
  \<open>Homed\<close> to true, and nothing else.
\<close>

theorem SetHomePosition_frame:
  "(State s \<noteq> MS_ENABLED \<longrightarrow> SetHomePosition s = s)
   \<and> (State s = MS_ENABLED \<longrightarrow>
        AbsolutePosition (SetHomePosition s) = 0
        \<and> DeltaPosition (SetHomePosition s) = 0
        \<and> Homed (SetHomePosition s)
        \<and> SetHomePosition s = s\<lparr> AbsolutePosition := 0, DeltaPosition := 0, Homed := True \<rparr>)"
  by (simp add: SetHomePosition_def)

text \<open>
  A running motor at position 2, where nothing changes, and an enabled motor whose
  position reads 7, which becomes the new home.
\<close>

theorem SetHomePosition_frame_witness:
  "State (Runs [due, due] (RotateAbsolute 5 800 0 (Enable defaultMotor))) = MS_RUNNING
   \<and> SetHomePosition (Runs [due, due] (RotateAbsolute 5 800 0 (Enable defaultMotor)))
       = Runs [due, due] (RotateAbsolute 5 800 0 (Enable defaultMotor))
   \<and> State ((Enable defaultMotor)\<lparr> AbsolutePosition := 7, Homed := False \<rparr>) = MS_ENABLED
   \<and> AbsolutePosition (SetHomePosition ((Enable defaultMotor)\<lparr> AbsolutePosition := 7, Homed := False \<rparr>)) = 0
   \<and> Homed (SetHomePosition ((Enable defaultMotor)\<lparr> AbsolutePosition := 7, Homed := False \<rparr>))"
proof -
  let ?r = "Runs [due, due] (RotateAbsolute 5 800 0 (Enable defaultMotor))"
  let ?e = "(Enable defaultMotor)\<lparr> AbsolutePosition := 7, Homed := False \<rparr>"
  have r: "State ?r = MS_RUNNING" by code_simp
  have e: "State ?e = MS_ENABLED" by code_simp
  from SetHomePosition_frame [of ?r] SetHomePosition_frame [of ?e] r e
  show ?thesis by simp
qed

end
